theory Spec2Isabelle
  imports Main "HOL-Library.AList"
begin

section \<open>Data model of \<open>runner/loadUtils.ts\<close>\<close>

text \<open>
  The suite tree, projects, configuration and load options, as \<open>loadUtils.ts\<close> uses
  them. A JavaScript object that the code mutates in place (a suite, the error sink, the
  loader host) is a value here, and every function that mutates it returns the new value.
\<close>

record location =
  filePath :: string
  line :: nat
  column :: nat

datatype regexp = RegExp (source: string) (flags: string)

text \<open>\<open>project.grep\<close> and \<open>project.grepInvert\<close> have type \<open>RegExp | RegExp[]\<close>.\<close>

datatype patterns = Single regexp | Multiple "regexp list"

record project =
  name :: string
  repeatEach :: nat
  fullyParallel :: bool
  grep :: patterns
  grepInvert :: "patterns option"

datatype suiteType = Root | Project | File | Describe

datatype parallelMode = Default | Parallel | Serial

record testCase =
  testTitle :: string
  testLocation :: location
  testOnly :: bool

record suiteInfo =
  title :: string
  suiteType :: suiteType
  location :: "location option"
  only :: bool
  requireFile :: string
  projectConfig :: "project option"
  parallelMode :: parallelMode

text \<open>
  A suite is its own fields and the ordered list \<open>_entries\<close> of its children, each a
  test case or a suite. \<open>Suite\<close> values are the entries built with \<open>SuiteE\<close>.
\<close>

datatype entry = TestE testCase | SuiteE suiteInfo "entry list"

type_synonym suite = entry

record testError =
  message :: string
  errorLocation :: "location option"

datatype testFileFilter =
  TestFileFilter (re: "regexp option") (exact: "string option")
    (filterLine: "nat option") (filterColumn: "nat option")

record loadOptions =
  listOnly :: bool
  testFileFilters :: "testFileFilter list"
  testTitleMatcher :: "(string \<Rightarrow> bool) option"
  projectFilter :: "string list option"
  passWithNoTests :: "bool option"

record shard =
  total :: nat
  current :: nat

record fullConfig =
  projects :: "project list"
  rootDir :: string
  shard :: "shard option"
  forbidOnly :: bool

text \<open>What a rejected promise carries: the thrown value, named by a string.\<close>

datatype exn = Exn string

text \<open>
  The functions that \<open>loadUtils.ts\<close> imports from other modules (\<open>projectUtils\<close>,
  \<open>testGroups\<close>, \<open>loaderHost\<close>, \<open>suiteUtils\<close>, \<open>util\<close>, Node's \<open>path\<close>) and whose
  bodies are not part of this file. They are parameters of the model. \<open>loadTestFile\<close>
  either throws or returns the file suite together with the errors it appended to the
  error sink, and \<open>stop\<close> either throws or returns. The functions called before the
  loader host exists (lines 40 to 77) are total here: the model is of the runs in
  which they return.
\<close>

record externals =
  filterProjects :: "project list \<Rightarrow> string list option \<Rightarrow> project list"
  collectFilesForProject :: "project \<Rightarrow> string list"
  createFileMatcherFromFilters :: "testFileFilter list \<Rightarrow> string \<Rightarrow> bool"
  projectsThatAreDependencies :: "project list \<Rightarrow> project list"
  filterForShard :: "shard \<Rightarrow> (project \<times> string list) list \<Rightarrow> (project \<times> string list) list"
  loadTestFile :: "string \<Rightarrow> exn + (suite \<times> testError list)"
  stop :: "exn + unit"
  buildFileSuiteForProject :: "project \<Rightarrow> suite \<Rightarrow> nat \<Rightarrow> suite"
  filterByFocusedLine :: "suite \<Rightarrow> testFileFilter list \<Rightarrow> suite"
  createTitleMatcher :: "patterns \<Rightarrow> string \<Rightarrow> bool"
  pathRelative :: "string \<Rightarrow> string \<Rightarrow> string"

section \<open>Strings\<close>

text \<open>\<open>Array.prototype.join\<close> and the decimal rendering of a number in a template.\<close>

fun join :: "string \<Rightarrow> string list \<Rightarrow> string" where
  "join sep [] = []"
| "join sep [x] = x"
| "join sep (x # y # ys) = x @ sep @ join sep (y # ys)"

definition digit :: "nat \<Rightarrow> char" where
  "digit n = ''0123456789'' ! (n mod 10)"

function showNat :: "nat \<Rightarrow> string" where
  "showNat n = (if n < 10 then [digit n] else showNat (n div 10) @ [digit n])"
  by pat_completeness auto
termination
  by (relation "measure id") auto

definition dquote :: string where
  "dquote = [CHR 0x22]"

text \<open>The separator \<open>' > '\<close> of the duplicate-title message, whose middle character is
  U+203A, here as its three UTF-8 bytes.\<close>

definition titleSeparator :: string where
  "titleSeparator = [CHR '' '', CHR 0xE2, CHR 0x80, CHR 0xBA, CHR '' '']"

section \<open>The suite tree\<close>

text \<open>
  Modelled from the spec: the methods of \<open>Suite\<close> and \<open>TestCase\<close> (\<open>common/test.ts\<close>) and
  of \<open>common/suiteUtils.ts\<close> are not in this file. A title path is the ordered list of
  the titles of the enclosing suites, outermost first, ending in the item's own title.
  An item has no parent pointer here, so a traversal carries the title path of the
  suite whose entries it visits.
\<close>

definition entriesOf :: "suite \<Rightarrow> entry list" where
  "entriesOf s = (case s of SuiteE i es \<Rightarrow> es | TestE t \<Rightarrow> [])"

definition suiteTitlePath :: "suite \<Rightarrow> string list" where
  "suiteTitlePath s = (case s of SuiteE i es \<Rightarrow> [title i] | TestE t \<Rightarrow> [testTitle t])"

text \<open>Modelled from the spec: \<open>allTests()\<close>, every test case of the subtree in
  declaration order, each with its title path.\<close>

fun allTestsIn :: "string list \<Rightarrow> entry list \<Rightarrow> (string list \<times> testCase) list" where
  "allTestsIn pre [] = []"
| "allTestsIn pre (TestE t # es) = (pre @ [testTitle t], t) # allTestsIn pre es"
| "allTestsIn pre (SuiteE i ch # es) = allTestsIn (pre @ [title i]) ch @ allTestsIn pre es"

definition allTests :: "suite \<Rightarrow> (string list \<times> testCase) list" where
  "allTests s = allTestsIn (suiteTitlePath s) (entriesOf s)"

section \<open>Duplicate titles\<close>

definition buildItemLocation :: "externals \<Rightarrow> string \<Rightarrow> location option \<Rightarrow> string" where
  "buildItemLocation x dir loc =
     (case loc of
        None \<Rightarrow> []
      | Some l \<Rightarrow> pathRelative x dir (filePath l) @ '':'' @ showNat (line l))"

text \<open>The inner loop of \<open>createDuplicateTitlesErrors\<close> over the tests of one file suite,
  with the map \<open>testsByFullTitle\<close> and the errors pushed so far.\<close>

fun duplicateTitlesLoop ::
  "externals \<Rightarrow> fullConfig \<Rightarrow> (string list \<times> testCase) list \<Rightarrow> (string \<rightharpoonup> testCase)
     \<Rightarrow> testError list \<Rightarrow> testError list" where
  "duplicateTitlesLoop x config [] testsByFullTitle errors = errors"
| "duplicateTitlesLoop x config ((titlePath, test) # rest) testsByFullTitle errors =
     (let fullTitle = join titleSeparator (drop 1 titlePath);
          errors' =
            (case testsByFullTitle fullTitle of
               Some existingTest \<Rightarrow>
                 errors @
                 [\<lparr>message = ''Error: duplicate test title '' @ dquote @ fullTitle @ dquote
                      @ '', first declared in ''
                      @ buildItemLocation x (rootDir config) (Some (testLocation existingTest)),
                   errorLocation = Some (testLocation test)\<rparr>]
             | None \<Rightarrow> errors)
      in duplicateTitlesLoop x config rest (testsByFullTitle(fullTitle \<mapsto> test)) errors')"

fun createDuplicateTitlesErrorsFrom ::
  "externals \<Rightarrow> fullConfig \<Rightarrow> suite list \<Rightarrow> testError list \<Rightarrow> testError list" where
  "createDuplicateTitlesErrorsFrom x config [] errors = errors"
| "createDuplicateTitlesErrorsFrom x config (fileSuite # fileSuites) errors =
     createDuplicateTitlesErrorsFrom x config fileSuites
       (duplicateTitlesLoop x config (allTests fileSuite) Map.empty errors)"

definition createDuplicateTitlesErrors ::
  "externals \<Rightarrow> fullConfig \<Rightarrow> suite list \<Rightarrow> testError list" where
  "createDuplicateTitlesErrors x config fileSuites =
     createDuplicateTitlesErrorsFrom x config fileSuites []"

section \<open>Maps and sets with insertion order\<close>

text \<open>
  A JavaScript \<open>Map\<close> keyed by project is an association list in insertion order:
  \<open>set\<close> is \<^const>\<open>AList.update\<close> (an existing key keeps its place, a new key goes
  last), \<open>delete\<close> is \<^const>\<open>AList.delete\<close>, \<open>get\<close> is \<^const>\<open>map_of\<close>, \<open>keys()\<close>
  is \<open>map fst\<close> and \<open>values()\<close> is \<open>map snd\<close>. A \<open>Set\<close> of strings is a list without
  repetition in insertion order. The keys are project objects in the source and
  project values here: two projects are the same key when all their fields agree.
\<close>

type_synonym filesByProject = "(project \<times> string list) list"

definition setAdd :: "string \<Rightarrow> string list \<Rightarrow> string list" where
  "setAdd v s = (if v \<in> set s then s else s @ [v])"

section \<open>Collecting files and categorising projects\<close>

text \<open>First collect all files for the projects in the command line, without any
  file filter.\<close>

definition collectAllFiles :: "externals \<Rightarrow> project list \<Rightarrow> filesByProject" where
  "collectAllFiles x ps =
     fold (\<lambda>project m. AList.update project (collectFilesForProject x project) m) ps []"

text \<open>Filter the files by the command-line file filters and leave out the projects
  that keep no file.\<close>

definition filterFiles :: "externals \<Rightarrow> loadOptions \<Rightarrow> filesByProject \<Rightarrow> filesByProject" where
  "filterFiles x options allFilesForProject =
     (let commandLineFileMatcher =
            (if testFileFilters options \<noteq> []
             then Some (createFileMatcherFromFilters x (testFileFilters options)) else None)
      in fold (\<lambda>(project, files) m.
                 let filteredFiles =
                       (case commandLineFileMatcher of
                          Some matcher \<Rightarrow> filter matcher files
                        | None \<Rightarrow> files)
                 in if filteredFiles \<noteq> [] then AList.update project filteredFiles m else m)
              allFilesForProject [])"

text \<open>Remove the dependency projects; they are added back later.\<close>

definition removeDependencies :: "externals \<Rightarrow> filesByProject \<Rightarrow> filesByProject" where
  "removeDependencies x m =
     fold (\<lambda>project m'. AList.delete project m')
          (projectsThatAreDependencies x (map fst m)) m"

text \<open>Shard only the top-level projects.\<close>

definition shardTopLevel :: "externals \<Rightarrow> fullConfig \<Rightarrow> filesByProject \<Rightarrow> filesByProject" where
  "shardTopLevel x config m =
     (case shard config of Some sh \<Rightarrow> filterForShard x sh m | None \<Rightarrow> m)"

text \<open>(Re-)add all files of the dependency projects, disregarding the filters.\<close>

definition addDependencyFiles ::
  "externals \<Rightarrow> filesByProject \<Rightarrow> project list \<Rightarrow> filesByProject \<Rightarrow> filesByProject" where
  "addDependencyFiles x allFilesForProject dependencyProjects m =
     fold (\<lambda>project m'.
             let files =
                   (case map_of allFilesForProject project of
                      Some fs \<Rightarrow> fs
                    | None \<Rightarrow> collectFilesForProject x project)
             in AList.update project files m')
          dependencyProjects m"

record collected =
  filesToRunByProject :: filesByProject
  topLevelProjects :: "project list"
  dependencyProjects :: "project list"

text \<open>The first block of \<open>loadAllTests\<close> (lines 40 to 80).\<close>

definition collectFiles :: "externals \<Rightarrow> fullConfig \<Rightarrow> loadOptions \<Rightarrow> collected" where
  "collectFiles x config options =
     (let ps = filterProjects x (projects config) (projectFilter options);
          allFilesForProject = collectAllFiles x ps;
          sharded =
            shardTopLevel x config
              (removeDependencies x (filterFiles x options allFilesForProject));
          tops = map fst sharded;
          deps = projectsThatAreDependencies x tops
      in \<lparr>filesToRunByProject = addDependencyFiles x allFilesForProject deps sharded,
          topLevelProjects = tops,
          dependencyProjects = deps\<rparr>)"

text \<open>\<open>filesToRunByProject.get(project)!\<close>. The key is always present where
  \<open>loadAllTests\<close> reads it (lemma \<open>filesOf_present\<close>); the empty list stands for the
  \<open>undefined\<close> that is never read.\<close>

definition filesOf :: "filesByProject \<Rightarrow> project \<Rightarrow> string list" where
  "filesOf m project = (case map_of m project of Some files \<Rightarrow> files | None \<Rightarrow> [])"

section \<open>Loading the test files\<close>

text \<open>The loader host, reduced to what it has been asked to do: the files passed to
  \<open>loadTestFile\<close>, in call order, and the number of calls of \<open>stop\<close>.\<close>

record loaderHost =
  loadCalls :: "string list"
  stopCalls :: nat

definition allTestFilesOf :: "filesByProject \<Rightarrow> string list" where
  "allTestFilesOf m = fold (\<lambda>files s. fold setAdd files s) (map snd m) []"

text \<open>The loop over \<open>allTestFiles\<close>. A \<open>loadTestFile\<close> that throws ends the loop, and
  with it \<open>loadAllTests\<close>: there is no handler around the call.\<close>

fun loadFilesLoop ::
  "externals \<Rightarrow> string list \<Rightarrow> loaderHost \<Rightarrow> suite list \<Rightarrow> testError list
     \<Rightarrow> loaderHost \<times> (exn + suite list \<times> testError list)" where
  "loadFilesLoop x [] host fileSuits errors = (host, Inr (fileSuits, errors))"
| "loadFilesLoop x (f # fs) host fileSuits errors =
     (let host' = host\<lparr>loadCalls := loadCalls host @ [f]\<rparr>
      in case loadTestFile x f of
           Inl e \<Rightarrow> (host', Inl e)
         | Inr (fileSuite, pushed) \<Rightarrow>
             loadFilesLoop x fs host' (fileSuits @ [fileSuite]) (errors @ pushed))"

text \<open>The second block of \<open>loadAllTests\<close> (lines 83 to 94). After the loop \<open>stop\<close> is
  invoked, and awaited with no handler: if it throws, the block ends in that
  exception.\<close>

definition loadFiles ::
  "externals \<Rightarrow> filesByProject \<Rightarrow> testError list
     \<Rightarrow> loaderHost \<times> (exn + suite list \<times> testError list)" where
  "loadFiles x m errors =
     (case loadFilesLoop x (allTestFilesOf m) \<lparr>loadCalls = [], stopCalls = 0\<rparr> [] errors of
        (host, Inl e) \<Rightarrow> (host, Inl e)
      | (host, Inr r) \<Rightarrow>
          (let host' = host\<lparr>stopCalls := stopCalls host + 1\<rparr>
           in case stop x of
                Inl e \<Rightarrow> (host', Inl e)
              | Inr u \<Rightarrow> (host', Inr r)))"

section \<open>Composing a project suite\<close>

text \<open>Modelled from the spec: \<open>_addSuite\<close> attaches a suite as the last child and
  \<open>_prependSuite\<close> inserts it before the existing children.\<close>

definition addSuite :: "suite \<Rightarrow> suite \<Rightarrow> suite" where
  "addSuite s child = (case s of SuiteE i es \<Rightarrow> SuiteE i (es @ [child]) | TestE t \<Rightarrow> TestE t)"

definition prependSuite :: "suite \<Rightarrow> suite \<Rightarrow> suite" where
  "prependSuite s child = (case s of SuiteE i es \<Rightarrow> SuiteE i (child # es) | TestE t \<Rightarrow> TestE t)"

text \<open>Modelled from the spec: \<open>new Suite(title, type)\<close> is an empty suite with the
  title and the type given, not focused, of no project and of no file.\<close>

definition newSuite :: "string \<Rightarrow> suiteType \<Rightarrow> suite" where
  "newSuite t ty =
     SuiteE \<lparr>title = t, suiteType = ty, location = None, only = False, requireFile = [],
             projectConfig = None, parallelMode = Default\<rparr> []"

text \<open>
  Modelled from the spec: \<open>filterTestsRemoveEmptySuites\<close> (\<open>common/suiteUtils.ts\<close>)
  applies a predicate on test cases, pruning the test cases that do not satisfy it and
  the groups left empty, and tells whether anything is left. The predicate reads a test
  case and its title path.
\<close>

fun filterEntries ::
  "(string list \<times> testCase \<Rightarrow> bool) \<Rightarrow> string list \<Rightarrow> entry list \<Rightarrow> entry list" where
  "filterEntries P pre [] = []"
| "filterEntries P pre (TestE t # es) =
     (if P (pre @ [testTitle t], t) then [TestE t] else []) @ filterEntries P pre es"
| "filterEntries P pre (SuiteE i ch # es) =
     (let ch' = filterEntries P (pre @ [title i]) ch
      in if ch' \<noteq> [] then [SuiteE i ch'] else []) @ filterEntries P pre es"

definition filterTestsRemoveEmptySuites ::
  "suite \<Rightarrow> (string list \<times> testCase \<Rightarrow> bool) \<Rightarrow> suite \<times> bool" where
  "filterTestsRemoveEmptySuites s P =
     (case s of
        SuiteE i es \<Rightarrow> (let es' = filterEntries P [title i] es in (SuiteE i es', es' \<noteq> []))
      | TestE t \<Rightarrow> (TestE t, False))"

text \<open>The closure \<open>titleMatcher\<close> of \<open>createProjectSuite\<close> (lines 150 to 158).\<close>

definition titleMatcher ::
  "externals \<Rightarrow> project \<Rightarrow> loadOptions \<Rightarrow> string list \<times> testCase \<Rightarrow> bool" where
  "titleMatcher x project options test =
     (let grepMatcher = createTitleMatcher x (grep project);
          grepInvertMatcher =
            (case grepInvert project of
               Some pats \<Rightarrow> Some (createTitleMatcher x pats)
             | None \<Rightarrow> None);
          grepTitle = join '' '' (fst test)
      in if (case grepInvertMatcher of Some m \<Rightarrow> m grepTitle | None \<Rightarrow> False)
         then False
         else grepMatcher grepTitle \<and>
              (case testTitleMatcher options of None \<Rightarrow> True | Some m \<Rightarrow> m grepTitle))"

definition requireFileOf :: "suite \<Rightarrow> string" where
  "requireFileOf s = (case s of SuiteE i es \<Rightarrow> requireFile i | TestE t \<Rightarrow> [])"

text \<open>The loop of \<open>createProjectSuite\<close> that attaches, for each file of the project
  with a loaded file suite, one built suite per repeat index.\<close>

definition addFileSuites ::
  "externals \<Rightarrow> (string \<rightharpoonup> suite) \<Rightarrow> project \<Rightarrow> string list \<Rightarrow> suite \<Rightarrow> suite" where
  "addFileSuites x fileSuitesMap project files projectSuite =
     fold (\<lambda>f s.
             case fileSuitesMap f of
               None \<Rightarrow> s
             | Some fileSuite \<Rightarrow>
                 fold (\<lambda>repeatEachIndex s'.
                         addSuite s' (buildFileSuiteForProject x project fileSuite repeatEachIndex))
                      [0..<repeatEach project] s)
          files projectSuite"

text \<open>\<open>createProjectSuite\<close> up to the line filter (lines 130 to 148): the project
  suite with its built file suites, filtered to respect the line and column filter.\<close>

definition buildProjectSuite ::
  "externals \<Rightarrow> suite list \<Rightarrow> project \<Rightarrow> testFileFilter list \<Rightarrow> string list \<Rightarrow> suite" where
  "buildProjectSuite x fileSuits project fileFilters files =
     (let fileSuitesMap =
            fold (\<lambda>fileSuite m. m(requireFileOf fileSuite \<mapsto> fileSuite)) fileSuits Map.empty;
          projectSuite =
            SuiteE \<lparr>title = name project, suiteType = Project, location = None, only = False,
                    requireFile = [], projectConfig = Some project,
                    parallelMode = (if fullyParallel project then Parallel else Default)\<rparr> [];
          projectSuite = addFileSuites x fileSuitesMap project files projectSuite
      in filterByFocusedLine x projectSuite fileFilters)"

definition createProjectSuite ::
  "externals \<Rightarrow> suite list \<Rightarrow> project \<Rightarrow> loadOptions \<Rightarrow> string list \<Rightarrow> suite option" where
  "createProjectSuite x fileSuits project options files =
     (let projectSuite = buildProjectSuite x fileSuits project (testFileFilters options) files;
          (projectSuite, nonEmpty) =
            filterTestsRemoveEmptySuites projectSuite (titleMatcher x project options)
      in if nonEmpty then Some projectSuite else None)"

text \<open>The two calls of \<open>createProjectSuite\<close> in \<open>loadAllTests\<close>: for a top-level project
  with the options as given (line 104), for a dependency project with the file filters
  and the title matcher of the command line taken out (line 121).\<close>

definition topLevelProjectSuite ::
  "externals \<Rightarrow> suite list \<Rightarrow> loadOptions \<Rightarrow> filesByProject \<Rightarrow> project \<Rightarrow> suite option" where
  "topLevelProjectSuite x fileSuits options m project =
     createProjectSuite x fileSuits project options (filesOf m project)"

definition dependencyProjectSuite ::
  "externals \<Rightarrow> suite list \<Rightarrow> loadOptions \<Rightarrow> filesByProject \<Rightarrow> project \<Rightarrow> suite option" where
  "dependencyProjectSuite x fileSuits options m project =
     createProjectSuite x fileSuits project
       (options\<lparr>testFileFilters := [], testTitleMatcher := None\<rparr>) (filesOf m project)"

section \<open>Focused items\<close>

text \<open>Modelled from the spec: \<open>_getOnlyItems\<close> collects every test case or group marked
  as focused in the subtree, each with its title path. No theorem below depends on the
  order of the collection.\<close>

fun getOnlyItemsIn :: "string list \<Rightarrow> entry list \<Rightarrow> (string list \<times> entry) list" where
  "getOnlyItemsIn pre [] = []"
| "getOnlyItemsIn pre (TestE t # es) =
     (if testOnly t then [(pre @ [testTitle t], TestE t)] else []) @ getOnlyItemsIn pre es"
| "getOnlyItemsIn pre (SuiteE i ch # es) =
     (if only i then [(pre @ [title i], SuiteE i ch)] else [])
     @ getOnlyItemsIn (pre @ [title i]) ch @ getOnlyItemsIn pre es"

definition getOnlyItems :: "suite \<Rightarrow> (string list \<times> entry) list" where
  "getOnlyItems s = getOnlyItemsIn [] [s]"

text \<open>
  Modelled from the spec: \<open>filterOnly\<close> (\<open>common/suiteUtils.ts\<close>). If any test or group
  of the suite is focused, everything else is pruned: a suite keeps its focused tests
  and the child suites that hold a focused item or are focused themselves; if none is
  focused the suite is unchanged.
\<close>

fun onlyEntries :: "entry list \<Rightarrow> entry list" where
  "onlyEntries [] = []"
| "onlyEntries (TestE t # es) = (if testOnly t then [TestE t] else []) @ onlyEntries es"
| "onlyEntries (SuiteE i ch # es) =
     (let ch' = onlyEntries ch
      in if ch' \<noteq> [] then [SuiteE i ch'] else if only i then [SuiteE i ch] else [])
     @ onlyEntries es"

definition filterOnly :: "suite \<Rightarrow> suite" where
  "filterOnly s =
     (case s of
        SuiteE i es \<Rightarrow> (let es' = onlyEntries es in if es' \<noteq> [] then SuiteE i es' else s)
      | TestE t \<Rightarrow> s)"

definition itemLocation :: "entry \<Rightarrow> location option" where
  "itemLocation e = (case e of TestE t \<Rightarrow> Some (testLocation t) | SuiteE i es \<Rightarrow> location i)"

fun createForbidOnlyErrors :: "(string list \<times> entry) list \<Rightarrow> testError list" where
  "createForbidOnlyErrors [] = []"
| "createForbidOnlyErrors ((titlePath, testOrSuite) # rest) =
     (let t = join '' '' (drop 2 titlePath)
      in \<lparr>message = ''Error: focused item found in the --forbid-only mode: ''
                      @ dquote @ t @ dquote,
          errorLocation = itemLocation testOrSuite\<rparr>)
     # createForbidOnlyErrors rest"

section \<open>Assembling the root suite\<close>

text \<open>First the leaf projects, in their order (lines 103 to 107).\<close>

definition addTopLevelSuites ::
  "externals \<Rightarrow> suite list \<Rightarrow> loadOptions \<Rightarrow> filesByProject \<Rightarrow> project list \<Rightarrow> suite \<Rightarrow> suite" where
  "addTopLevelSuites x fileSuits options m tops rootSuite =
     fold (\<lambda>project r.
             case topLevelProjectSuite x fileSuits options m project of
               Some projectSuite \<Rightarrow> addSuite r projectSuite
             | None \<Rightarrow> r)
          tops rootSuite"

text \<open>Complain about only (lines 110 to 114).\<close>

definition complainAboutOnly :: "fullConfig \<Rightarrow> suite \<Rightarrow> testError list \<Rightarrow> testError list" where
  "complainAboutOnly config rootSuite errors =
     (if forbidOnly config
      then (let onlyTestsAndSuites = getOnlyItems rootSuite
            in if length onlyTestsAndSuites > 0
               then errors @ createForbidOnlyErrors onlyTestsAndSuites
               else errors)
      else errors)"

text \<open>Prepend the projects that are dependencies (lines 120 to 124).\<close>

definition prependDependencySuites ::
  "externals \<Rightarrow> suite list \<Rightarrow> loadOptions \<Rightarrow> filesByProject \<Rightarrow> project list \<Rightarrow> suite \<Rightarrow> suite" where
  "prependDependencySuites x fileSuits options m deps rootSuite =
     fold (\<lambda>project r.
             case dependencyProjectSuite x fileSuits options m project of
               Some projectSuite \<Rightarrow> prependSuite r projectSuite
             | None \<Rightarrow> r)
          deps rootSuite"

text \<open>The third block of \<open>loadAllTests\<close> (lines 96 to 126), from the loaded file
  suites to the root suite and the error sink.\<close>

definition createRoot ::
  "externals \<Rightarrow> fullConfig \<Rightarrow> loadOptions \<Rightarrow> collected \<Rightarrow> suite list \<Rightarrow> testError list
     \<Rightarrow> suite \<times> testError list" where
  "createRoot x config options c fileSuits errors =
     (let errors = errors @ createDuplicateTitlesErrors x config fileSuits;
          rootSuite = newSuite [] Root;
          rootSuite = addTopLevelSuites x fileSuits options (filesToRunByProject c)
                        (topLevelProjects c) rootSuite;
          errors = complainAboutOnly config rootSuite errors;
          rootSuite = filterOnly rootSuite;
          rootSuite = prependDependencySuites x fileSuits options (filesToRunByProject c)
                        (dependencyProjects c) rootSuite
      in (rootSuite, errors))"

text \<open>\<open>loadAllTests\<close>, from the point where the first block has returned: what the
  loader host was asked to do, and either the thrown value or the root suite with
  the error sink. A run in which a function of the first block throws leaves
  \<open>loadAllTests\<close> before line 85, where the loader host is created; it has no loader
  host and is not among the runs of this definition.\<close>

definition loadAllTests ::
  "externals \<Rightarrow> fullConfig \<Rightarrow> loadOptions \<Rightarrow> testError list
     \<Rightarrow> loaderHost \<times> (exn + suite \<times> testError list)" where
  "loadAllTests x config options errors =
     (let c = collectFiles x config options
      in case loadFiles x (filesToRunByProject c) errors of
           (host, Inl e) \<Rightarrow> (host, Inl e)
         | (host, Inr (fileSuits, errors')) \<Rightarrow>
             (host, Inr (createRoot x config options c fileSuits errors')))"

section \<open>Parts of a run\<close>

text \<open>Names for what a run of \<open>loadAllTests\<close> holds in its local variables, for stating
  the theorems: the file suites and the error sink after the loading block, the
  non-empty suites composed in the two loops, and the root suite as it stands after
  the loop over the top-level projects (line 108).\<close>

definition retainedTests :: "suite option \<Rightarrow> (string list \<times> testCase) list" where
  "retainedTests r = (case r of Some projectSuite \<Rightarrow> allTests projectSuite | None \<Rightarrow> [])"

definition loadedFileSuits ::
  "externals \<Rightarrow> fullConfig \<Rightarrow> loadOptions \<Rightarrow> testError list \<Rightarrow> suite list" where
  "loadedFileSuits x config options errors =
     (case snd (loadFiles x (filesToRunByProject (collectFiles x config options)) errors) of
        Inr (fileSuits, errors') \<Rightarrow> fileSuits
      | Inl e \<Rightarrow> [])"

definition loadedErrors ::
  "externals \<Rightarrow> fullConfig \<Rightarrow> loadOptions \<Rightarrow> testError list \<Rightarrow> testError list" where
  "loadedErrors x config options errors =
     (case snd (loadFiles x (filesToRunByProject (collectFiles x config options)) errors) of
        Inr (fileSuits, errors') \<Rightarrow> errors'
      | Inl e \<Rightarrow> errors)"

definition topLevelSuites ::
  "externals \<Rightarrow> fullConfig \<Rightarrow> loadOptions \<Rightarrow> testError list \<Rightarrow> suite list" where
  "topLevelSuites x config options errors =
     List.map_filter
       (topLevelProjectSuite x (loadedFileSuits x config options errors) options
          (filesToRunByProject (collectFiles x config options)))
       (topLevelProjects (collectFiles x config options))"

definition dependencySuites ::
  "externals \<Rightarrow> fullConfig \<Rightarrow> loadOptions \<Rightarrow> testError list \<Rightarrow> suite list" where
  "dependencySuites x config options errors =
     List.map_filter
       (dependencyProjectSuite x (loadedFileSuits x config options errors) options
          (filesToRunByProject (collectFiles x config options)))
       (dependencyProjects (collectFiles x config options))"

definition topLevelRoot ::
  "externals \<Rightarrow> fullConfig \<Rightarrow> loadOptions \<Rightarrow> testError list \<Rightarrow> suite" where
  "topLevelRoot x config options errors =
     addTopLevelSuites x (loadedFileSuits x config options errors) options
       (filesToRunByProject (collectFiles x config options))
       (topLevelProjects (collectFiles x config options)) (newSuite [] Root)"

section \<open>A small configuration\<close>

text \<open>
  Three projects: \<open>main\<close> depends on \<open>setupA\<close> and \<open>setupB\<close>. The collaborators are the
  simplest ones: a pattern matches a title that contains its source text, a file filter
  matches a path that contains its \<open>exact\<close> text, a built file suite is the loaded file
  suite, and there is no line filter and no sharding.
\<close>

fun startsWith :: "string \<Rightarrow> string \<Rightarrow> bool" where
  "startsWith [] s = True"
| "startsWith (c # cs) [] = False"
| "startsWith (c # cs) (d # ds) = (c = d \<and> startsWith cs ds)"

fun containsText :: "string \<Rightarrow> string \<Rightarrow> bool" where
  "containsText p [] = (p = [])"
| "containsText p (c # cs) = (startsWith p (c # cs) \<or> containsText p cs)"

definition exampleTitleMatcher :: "patterns \<Rightarrow> string \<Rightarrow> bool" where
  "exampleTitleMatcher pats t =
     (case pats of
        Single r \<Rightarrow> containsText (source r) t
      | Multiple rs \<Rightarrow> list_ex (\<lambda>r. containsText (source r) t) rs)"

definition exampleFileMatcher :: "testFileFilter list \<Rightarrow> string \<Rightarrow> bool" where
  "exampleFileMatcher filters f =
     list_ex (\<lambda>flt. case exact flt of Some e \<Rightarrow> containsText e f | None \<Rightarrow> True) filters"

definition setupA :: project where
  "setupA = \<lparr>name = ''setupA'', repeatEach = 1, fullyParallel = False,
             grep = Single (RegExp ''keep'' []), grepInvert = None\<rparr>"

definition setupB :: project where
  "setupB = \<lparr>name = ''setupB'', repeatEach = 1, fullyParallel = False,
             grep = Single (RegExp [] []), grepInvert = None\<rparr>"

definition mainProject :: project where
  "mainProject = \<lparr>name = ''main'', repeatEach = 1, fullyParallel = False,
                  grep = Single (RegExp [] []), grepInvert = None\<rparr>"

definition exampleTest :: "string \<Rightarrow> string \<Rightarrow> nat \<Rightarrow> bool \<Rightarrow> entry" where
  "exampleTest f t n b =
     TestE \<lparr>testTitle = t, testLocation = \<lparr>filePath = f, line = n, column = 1\<rparr>,
            testOnly = b\<rparr>"

definition exampleFileSuite :: "string \<Rightarrow> string \<Rightarrow> entry list \<Rightarrow> suite" where
  "exampleFileSuite f t es =
     SuiteE \<lparr>title = t, suiteType = File,
             location = Some \<lparr>filePath = f, line = 0, column = 0\<rparr>, only = False,
             requireFile = f, projectConfig = None, parallelMode = Default\<rparr> es"

definition exampleLoad :: "string \<Rightarrow> exn + (suite \<times> testError list)" where
  "exampleLoad f =
     (if f = ''/r/m.ts'' then
        Inr (exampleFileSuite f ''m.ts''
               [exampleTest f ''one'' 3 True, exampleTest f ''two'' 7 False], [])
      else if f = ''/r/sa.ts'' then
        Inr (exampleFileSuite f ''sa.ts''
               [exampleTest f ''keep'' 2 True, exampleTest f ''drop'' 5 False], [])
      else if f = ''/r/sb.ts'' then
        Inr (exampleFileSuite f ''sb.ts'' [exampleTest f ''b'' 4 False], [])
      else Inl (Exn ''cannot load''))"

definition exampleExternals :: externals where
  "exampleExternals =
     \<lparr>filterProjects = (\<lambda>ps f. ps),
      collectFilesForProject =
        (\<lambda>p. if p = setupA then [''/r/sa.ts'']
              else if p = setupB then [''/r/sb.ts'']
              else if p = mainProject then [''/r/m.ts'', ''/r/sb.ts''] else []),
      createFileMatcherFromFilters = exampleFileMatcher,
      projectsThatAreDependencies =
        (\<lambda>ps. if mainProject \<in> set ps then [setupA, setupB] else []),
      filterForShard = (\<lambda>sh m. m),
      loadTestFile = exampleLoad,
      stop = Inr (),
      buildFileSuiteForProject = (\<lambda>p s i. s),
      filterByFocusedLine = (\<lambda>s fs. s),
      createTitleMatcher = exampleTitleMatcher,
      pathRelative = (\<lambda>d f. drop (Suc (length d)) f)\<rparr>"

text \<open>The same collaborators with a loader that throws on the file \<open>/r/sb.ts\<close>.\<close>

definition throwingExternals :: externals where
  "throwingExternals =
     exampleExternals
       \<lparr>loadTestFile :=
          (\<lambda>f. if f = ''/r/sb.ts'' then Inl (Exn ''cannot load'') else exampleLoad f)\<rparr>"

text \<open>The same collaborators with a loader host whose \<open>stop\<close> throws.\<close>

definition stopThrowingExternals :: externals where
  "stopThrowingExternals = exampleExternals\<lparr>stop := Inl (Exn ''cannot stop'')\<rparr>"

definition exampleConfig :: fullConfig where
  "exampleConfig =
     \<lparr>projects = [setupA, setupB, mainProject], rootDir = ''/r'', shard = None,
      forbidOnly = True\<rparr>"

definition exampleOptions :: loadOptions where
  "exampleOptions =
     \<lparr>listOnly = False, testFileFilters = [], testTitleMatcher = None,
      projectFilter = None, passWithNoTests = None\<rparr>"

text \<open>The command line \<open>m.ts\<close>: one file filter, which none of the files of the two
  setup projects matches.\<close>

definition filteredOptions :: loadOptions where
  "filteredOptions =
     exampleOptions\<lparr>testFileFilters := [TestFileFilter None (Some ''m.ts'') None None]\<rparr>"

text \<open>The file suites of the three files, in load order.\<close>

definition exampleFileSuits :: "suite list" where
  "exampleFileSuits =
     [exampleFileSuite ''/r/m.ts'' ''m.ts''
        [exampleTest ''/r/m.ts'' ''one'' 3 True, exampleTest ''/r/m.ts'' ''two'' 7 False],
      exampleFileSuite ''/r/sb.ts'' ''sb.ts'' [exampleTest ''/r/sb.ts'' ''b'' 4 False],
      exampleFileSuite ''/r/sa.ts'' ''sa.ts''
        [exampleTest ''/r/sa.ts'' ''keep'' 2 True, exampleTest ''/r/sa.ts'' ''drop'' 5 False]]"

text \<open>The root suite and the error sink of the run on this configuration.\<close>

definition exampleProjectSuite :: "project \<Rightarrow> entry list \<Rightarrow> suite" where
  "exampleProjectSuite p es =
     SuiteE \<lparr>title = name p, suiteType = Project, location = None, only = False,
             requireFile = [], projectConfig = Some p, parallelMode = Default\<rparr> es"

definition exampleRoot :: suite where
  "exampleRoot =
     SuiteE \<lparr>title = [], suiteType = Root, location = None, only = False, requireFile = [],
             projectConfig = None, parallelMode = Default\<rparr>
       [exampleProjectSuite setupB
          [exampleFileSuite ''/r/sb.ts'' ''sb.ts'' [exampleTest ''/r/sb.ts'' ''b'' 4 False]],
        exampleProjectSuite setupA
          [exampleFileSuite ''/r/sa.ts'' ''sa.ts'' [exampleTest ''/r/sa.ts'' ''keep'' 2 True]],
        exampleProjectSuite mainProject
          [exampleFileSuite ''/r/m.ts'' ''m.ts'' [exampleTest ''/r/m.ts'' ''one'' 3 True]]]"

definition exampleErrors :: "testError list" where
  "exampleErrors =
     [\<lparr>message = ''Error: focused item found in the --forbid-only mode: ''
                   @ dquote @ ''m.ts one'' @ dquote,
       errorLocation = Some \<lparr>filePath = ''/r/m.ts'', line = 3, column = 1\<rparr>\<rparr>]"

text \<open>A file that declares the test \<open>does X\<close> of the group \<open>suite A\<close> three times, on
  the lines 1, 2 and 3.\<close>

definition duplicateFileSuite :: suite where
  "duplicateFileSuite =
     exampleFileSuite ''/r/d.ts'' ''d.ts''
       [SuiteE \<lparr>title = ''suite A'', suiteType = Describe,
                location = Some \<lparr>filePath = ''/r/d.ts'', line = 0, column = 1\<rparr>,
                only = False, requireFile = ''/r/d.ts'', projectConfig = None,
                parallelMode = Default\<rparr>
          [exampleTest ''/r/d.ts'' ''does X'' 1 False,
           exampleTest ''/r/d.ts'' ''does X'' 2 False,
           exampleTest ''/r/d.ts'' ''does X'' 3 False]]"

section \<open>Lemmas about the model\<close>

subsection \<open>The set of files and the loading loop\<close>

lemma set_fold_setAdd: "set (fold setAdd fs s) = set s \<union> set fs"
  by (induction fs arbitrary: s) (auto simp: setAdd_def)

lemma distinct_fold_setAdd: "distinct s \<Longrightarrow> distinct (fold setAdd fs s)"
  by (induction fs arbitrary: s) (auto simp: setAdd_def)

lemma set_fold_fold_setAdd:
  "set (fold (\<lambda>files s. fold setAdd files s) fss s) = set s \<union> \<Union>(set ` set fss)"
  by (induction fss arbitrary: s) (auto simp: set_fold_setAdd)

lemma distinct_fold_fold_setAdd:
  "distinct s \<Longrightarrow> distinct (fold (\<lambda>files s. fold setAdd files s) fss s)"
  by (induction fss arbitrary: s) (auto simp: distinct_fold_setAdd)

lemma set_allTestFilesOf: "set (allTestFilesOf m) = \<Union>(set ` snd ` set m)"
  by (simp add: allTestFilesOf_def set_fold_fold_setAdd)

lemma distinct_allTestFilesOf: "distinct (allTestFilesOf m)"
  by (simp add: allTestFilesOf_def distinct_fold_fold_setAdd)

lemma loadFilesLoop_calls:
  "\<exists>n\<le>length fs.
      loadCalls (fst (loadFilesLoop x fs host acc errs)) = loadCalls host @ take n fs
      \<and> stopCalls (fst (loadFilesLoop x fs host acc errs)) = stopCalls host
      \<and> ((\<exists>r. snd (loadFilesLoop x fs host acc errs) = Inr r) \<longrightarrow> n = length fs)"
proof (induction fs arbitrary: host acc errs)
  case Nil
  then show ?case by simp
next
  case (Cons f fs)
  show ?case
  proof (cases "loadTestFile x f")
    case (Inl e)
    then have "loadCalls (fst (loadFilesLoop x (f # fs) host acc errs))
                 = loadCalls host @ take 1 (f # fs)"
      and "stopCalls (fst (loadFilesLoop x (f # fs) host acc errs)) = stopCalls host"
      and "\<not> (\<exists>r. snd (loadFilesLoop x (f # fs) host acc errs) = Inr r)"
      by simp_all
    then show ?thesis by (metis One_nat_def Suc_le_mono length_Cons zero_le)
  next
    case (Inr r)
    obtain s pushed where r: "r = (s, pushed)" by (cases r)
    let ?h = "host\<lparr>loadCalls := loadCalls host @ [f]\<rparr>"
    have step: "loadFilesLoop x (f # fs) host acc errs
                  = loadFilesLoop x fs ?h (acc @ [s]) (errs @ pushed)"
      using Inr r by simp
    from Cons.IH [of ?h "acc @ [s]" "errs @ pushed"] obtain n where
      n: "n \<le> length fs"
      "loadCalls (fst (loadFilesLoop x fs ?h (acc @ [s]) (errs @ pushed)))
         = loadCalls ?h @ take n fs"
      "stopCalls (fst (loadFilesLoop x fs ?h (acc @ [s]) (errs @ pushed))) = stopCalls ?h"
      "(\<exists>r. snd (loadFilesLoop x fs ?h (acc @ [s]) (errs @ pushed)) = Inr r)
         \<longrightarrow> n = length fs"
      by blast
    show ?thesis
      unfolding step by (rule exI [of _ "Suc n"]) (use n in simp)
  qed
qed

lemma loadFilesLoop_returns:
  "\<forall>f\<in>set fs. \<exists>r. loadTestFile x f = Inr r \<Longrightarrow>
   \<exists>r. snd (loadFilesLoop x fs host acc errs) = Inr r"
proof (induction fs arbitrary: host acc errs)
  case Nil
  then show ?case by simp
next
  case (Cons f fs)
  then obtain s pushed where "loadTestFile x f = Inr (s, pushed)" by fastforce
  with Cons show ?case by simp
qed

lemma loadFilesLoop_throws:
  "\<exists>f\<in>set fs. \<exists>e. loadTestFile x f = Inl e \<Longrightarrow>
   \<exists>e. snd (loadFilesLoop x fs host acc errs) = Inl e"
proof (induction fs arbitrary: host acc errs)
  case Nil
  then show ?case by simp
next
  case (Cons f fs)
  show ?case
  proof (cases "loadTestFile x f")
    case (Inl e)
    then show ?thesis by simp
  next
    case (Inr r)
    with Cons.prems have "\<exists>f\<in>set fs. \<exists>e. loadTestFile x f = Inl e" by auto
    from Cons.IH [OF this] Inr show ?thesis by (cases r) simp
  qed
qed

subsection \<open>Filtering the tests of a suite\<close>

lemma allTestsIn_append:
  "allTestsIn pre (es @ fs) = allTestsIn pre es @ allTestsIn pre fs"
  by (induction pre es rule: allTestsIn.induct) simp_all

lemma filterEntries_Nil_iff:
  "filterEntries P pre es = [] \<longleftrightarrow> filter P (allTestsIn pre es) = []"
  by (induction P pre es rule: filterEntries.induct) (simp_all add: Let_def)

lemma allTestsIn_filterEntries:
  "allTestsIn pre (filterEntries P pre es) = filter P (allTestsIn pre es)"
  by (induction P pre es rule: filterEntries.induct)
    (simp_all add: allTestsIn_append filterEntries_Nil_iff Let_def)

lemma allTests_filterTests:
  "allTests (fst (filterTestsRemoveEmptySuites s P)) = filter P (allTests s)"
  by (cases s) (simp_all add: filterTestsRemoveEmptySuites_def allTests_def suiteTitlePath_def
      entriesOf_def allTestsIn_filterEntries Let_def)

lemma snd_filterTests:
  "snd (filterTestsRemoveEmptySuites s P) \<longleftrightarrow> filter P (allTests s) \<noteq> []"
  by (cases s) (simp_all add: filterTestsRemoveEmptySuites_def allTests_def suiteTitlePath_def
      entriesOf_def filterEntries_Nil_iff Let_def)

lemma retained_createProjectSuite:
  "retainedTests (createProjectSuite x fileSuits project options files) =
     filter (titleMatcher x project options)
       (allTests (buildProjectSuite x fileSuits project (testFileFilters options) files))"
  using
    allTests_filterTests
      [of "buildProjectSuite x fileSuits project (testFileFilters options) files"
          "titleMatcher x project options"]
    snd_filterTests
      [of "buildProjectSuite x fileSuits project (testFileFilters options) files"
          "titleMatcher x project options"]
  by (auto simp: retainedTests_def createProjectSuite_def Let_def split: prod.splits)

subsection \<open>The children of the root suite\<close>

lemma addTopLevelSuites_entries:
  "addTopLevelSuites x fileSuits options m tops (SuiteE i es) =
     SuiteE i (es @ List.map_filter (topLevelProjectSuite x fileSuits options m) tops)"
  unfolding addTopLevelSuites_def
  by (induction tops arbitrary: es)
    (simp_all add: List.map_filter_simps addSuite_def split: option.splits)

lemma prependDependencySuites_entries:
  "prependDependencySuites x fileSuits options m deps (SuiteE i es) =
     SuiteE i (rev (List.map_filter (dependencyProjectSuite x fileSuits options m) deps) @ es)"
  unfolding prependDependencySuites_def
  by (induction deps arbitrary: es)
    (simp_all add: List.map_filter_simps prependSuite_def split: option.splits)

lemma onlyEntries_member:
  "e \<in> set (onlyEntries es) \<Longrightarrow> \<exists>s\<in>set es. e = filterOnly s"
  by (induction es rule: onlyEntries.induct)
    (auto simp: filterOnly_def Let_def split: if_splits)

lemma onlyEntries_Nil:
  "onlyEntries es = [] \<Longrightarrow> s \<in> set es \<Longrightarrow> filterOnly s = s"
  by (induction es rule: onlyEntries.induct)
    (auto simp: filterOnly_def Let_def split: if_splits)

lemma filterOnly_children:
  "e \<in> set (entriesOf (filterOnly (SuiteE i es))) \<Longrightarrow> \<exists>s\<in>set es. e = filterOnly s"
proof (cases "onlyEntries es = []")
  case True
  assume "e \<in> set (entriesOf (filterOnly (SuiteE i es)))"
  with True have e: "e \<in> set es" by (simp add: filterOnly_def entriesOf_def)
  with True have "filterOnly e = e" by (rule onlyEntries_Nil)
  with e show ?thesis by metis
next
  case False
  assume "e \<in> set (entriesOf (filterOnly (SuiteE i es)))"
  with False have "e \<in> set (onlyEntries es)"
    by (simp add: filterOnly_def entriesOf_def Let_def)
  then show ?thesis by (rule onlyEntries_member)
qed

lemma filterOnly_SuiteE: "\<exists>es'. filterOnly (SuiteE i es) = SuiteE i es'"
  by (simp add: filterOnly_def Let_def)

lemma createRoot_entries:
  "entriesOf (fst (createRoot x config options c fileSuits errors)) =
     rev (List.map_filter (dependencyProjectSuite x fileSuits options (filesToRunByProject c))
            (dependencyProjects c))
     @ entriesOf
         (filterOnly
            (SuiteE \<lparr>title = [], suiteType = Root, location = None, only = False,
                    requireFile = [], projectConfig = None, parallelMode = Default\<rparr>
               (List.map_filter
                  (topLevelProjectSuite x fileSuits options (filesToRunByProject c))
                  (topLevelProjects c))))"
proof -
  let ?info = "\<lparr>title = [], suiteType = Root, location = None, only = False,
                 requireFile = [], projectConfig = None, parallelMode = Default\<rparr>"
  let ?tops = "List.map_filter
                 (topLevelProjectSuite x fileSuits options (filesToRunByProject c))
                 (topLevelProjects c)"
  obtain es' where es': "filterOnly (SuiteE ?info ?tops) = SuiteE ?info es'"
    using filterOnly_SuiteE by blast
  show ?thesis
    by (simp add: createRoot_def newSuite_def addTopLevelSuites_entries es'
        prependDependencySuites_entries entriesOf_def)
qed

lemma loadAllTests_returned:
  assumes "loadAllTests x config options errors = (host, Inr (rootSuite, errors'))"
  shows "\<exists>fileSuits loaded.
           snd (loadFiles x (filesToRunByProject (collectFiles x config options)) errors)
             = Inr (fileSuits, loaded)
         \<and> (rootSuite, errors')
             = createRoot x config options (collectFiles x config options) fileSuits loaded"
  using assms by (auto simp: loadAllTests_def Let_def split: prod.splits sum.splits)

subsection \<open>The files of a project\<close>

lemma map_of_fold_update:
  "map_of (fold (\<lambda>k m. AList.update k (f k) m) ks m0) q =
     (if q \<in> set ks then Some (f q) else map_of m0 q)"
  by (induction ks arbitrary: m0) (simp_all add: update_conv')

lemma map_of_collectAllFiles:
  "map_of (collectAllFiles x ps) p =
     (if p \<in> set ps then Some (collectFilesForProject x p) else None)"
  by (simp add: collectAllFiles_def map_of_fold_update)

lemma map_of_addDependencyFiles:
  "map_of (addDependencyFiles x (collectAllFiles x ps) deps m) p =
     (if p \<in> set deps then Some (collectFilesForProject x p) else map_of m p)"
proof -
  have same: "\<And>c a. (case (if c then Some a else None) of
                          None \<Rightarrow> a
                        | Some (fs::string list) \<Rightarrow> fs) = a"
    by simp
  have "addDependencyFiles x (collectAllFiles x ps) deps m =
          fold (\<lambda>k m'. AList.update k (collectFilesForProject x k) m') deps m"
    by (simp add: addDependencyFiles_def map_of_collectAllFiles same)
  then show ?thesis by (simp add: map_of_fold_update)
qed

lemma filesOf_dependency:
  assumes "p \<in> set (dependencyProjects (collectFiles x config options))"
  shows "map_of (filesToRunByProject (collectFiles x config options)) p
           = Some (collectFilesForProject x p)"
  using assms by (simp add: collectFiles_def Let_def map_of_addDependencyFiles)

lemma filesOf_present:
  assumes "p \<in> set (topLevelProjects (collectFiles x config options))"
  shows "map_of (filesToRunByProject (collectFiles x config options)) p \<noteq> None"
proof -
  let ?sharded = "shardTopLevel x config (removeDependencies x (filterFiles x options
      (collectAllFiles x (filterProjects x (projects config) (projectFilter options)))))"
  from assms have "p \<in> fst ` set ?sharded" by (simp add: collectFiles_def Let_def)
  then have "map_of ?sharded p \<noteq> None" by (simp add: map_of_eq_None_iff)
  then show ?thesis by (simp add: collectFiles_def Let_def map_of_addDependencyFiles)
qed

lemma values_in_allTestFiles:
  "map_of m p = Some fs \<Longrightarrow> set fs \<subseteq> set (allTestFilesOf m)"
  by (auto simp: set_allTestFilesOf dest!: map_of_SomeD intro!: bexI [of _ "(p, fs)"])

text \<open>No project is both a top-level and a dependency project, when the dependency
  closure grows with the set of projects it is taken of and sharding keeps a subset
  of the projects.\<close>

lemma keys_fold_delete:
  "fst ` set (fold (\<lambda>k m'. AList.delete k m') ks m) = fst ` set m - set ks"
proof (induction ks arbitrary: m)
  case Nil
  then show ?case by simp
next
  case (Cons k ks)
  have "fst ` set (AList.delete k m) = fst ` set m - {k}"
    by (auto simp: AList.delete_eq image_iff)
  with Cons show ?case by auto
qed

lemma top_level_not_dependency:
  assumes mono: "\<And>ps qs. set ps \<subseteq> set qs \<Longrightarrow>
            set (projectsThatAreDependencies x ps) \<subseteq> set (projectsThatAreDependencies x qs)"
    and sub: "\<And>sh m. fst ` set (filterForShard x sh m) \<subseteq> fst ` set m"
  shows "set (topLevelProjects (collectFiles x config options))
           \<inter> set (dependencyProjects (collectFiles x config options)) = {}"
proof -
  let ?m0 = "filterFiles x options
      (collectAllFiles x (filterProjects x (projects config) (projectFilter options)))"
  let ?m1 = "removeDependencies x ?m0"
  let ?m2 = "shardTopLevel x config ?m1"
  have tops: "topLevelProjects (collectFiles x config options) = map fst ?m2"
    and deps: "dependencyProjects (collectFiles x config options)
                 = projectsThatAreDependencies x (map fst ?m2)"
    by (simp_all add: collectFiles_def Let_def)
  have k1: "fst ` set ?m1 = fst ` set ?m0 - set (projectsThatAreDependencies x (map fst ?m0))"
    by (simp add: removeDependencies_def keys_fold_delete)
  have k2: "fst ` set ?m2 \<subseteq> fst ` set ?m1"
    using sub by (auto simp: shardTopLevel_def split: option.splits)
  from k1 k2 have "set (map fst ?m2) \<subseteq> set (map fst ?m0)" by auto
  from mono [OF this] k1 k2 show ?thesis
    unfolding tops deps by auto
qed

subsection \<open>The loader host after a run\<close>

lemma count_list_distinct:
  "distinct xs \<Longrightarrow> count_list xs a = (if a \<in> set xs then 1 else 0)"
  by (induction xs) auto

lemma fst_loadAllTests:
  "fst (loadAllTests x config options errors) =
     fst (loadFiles x (filesToRunByProject (collectFiles x config options)) errors)"
  by (simp add: loadAllTests_def Let_def split: prod.splits sum.splits)

lemma loadFiles_host:
  "fst (loadFiles x m errors) =
     (let r = loadFilesLoop x (allTestFilesOf m) \<lparr>loadCalls = [], stopCalls = 0\<rparr> [] errors
      in case snd r of
           Inl e \<Rightarrow> fst r
         | Inr v \<Rightarrow> (fst r)\<lparr>stopCalls := stopCalls (fst r) + 1\<rparr>)"
  by (simp add: loadFiles_def Let_def split: prod.splits sum.splits)

lemma stopCalls_loadFiles:
  "stopCalls (fst (loadFiles x m errors)) =
     (if \<forall>f\<in>set (allTestFilesOf m). \<exists>r. loadTestFile x f = Inr r then 1 else 0)"
proof -
  let ?r = "loadFilesLoop x (allTestFilesOf m) \<lparr>loadCalls = [], stopCalls = 0\<rparr> [] errors"
  have stop: "stopCalls (fst ?r) = 0"
    using loadFilesLoop_calls
            [of "allTestFilesOf m" x "\<lparr>loadCalls = [], stopCalls = 0\<rparr>" "[]" errors]
    by auto
  show ?thesis
  proof (cases "\<forall>f\<in>set (allTestFilesOf m). \<exists>r. loadTestFile x f = Inr r")
    case True
    then obtain v where "snd ?r = Inr v"
      using loadFilesLoop_returns by blast
    with True stop show ?thesis by (simp add: loadFiles_host)
  next
    case False
    then have "\<exists>f\<in>set (allTestFilesOf m). \<exists>e. loadTestFile x f = Inl e"
      by (metis sum.exhaust)
    then obtain e where "snd ?r = Inl e"
      using loadFilesLoop_throws by blast
    with False stop show ?thesis by (simp add: loadFiles_host)
  qed
qed

lemma loadCalls_loadFiles:
  "\<exists>n\<le>length (allTestFilesOf m).
     loadCalls (fst (loadFiles x m errors)) = take n (allTestFilesOf m)
     \<and> ((\<forall>f\<in>set (allTestFilesOf m). \<exists>r. loadTestFile x f = Inr r)
          \<longrightarrow> n = length (allTestFilesOf m))"
proof -
  let ?r = "loadFilesLoop x (allTestFilesOf m) \<lparr>loadCalls = [], stopCalls = 0\<rparr> [] errors"
  obtain n where n: "n \<le> length (allTestFilesOf m)"
    "loadCalls (fst ?r) = take n (allTestFilesOf m)"
    "(\<exists>v. snd ?r = Inr v) \<longrightarrow> n = length (allTestFilesOf m)"
    using loadFilesLoop_calls
            [of "allTestFilesOf m" x "\<lparr>loadCalls = [], stopCalls = 0\<rparr>" "[]" errors]
    by auto
  have calls: "loadCalls (fst (loadFiles x m errors)) = loadCalls (fst ?r)"
    by (simp add: loadFiles_host Let_def split: sum.splits)
  have "(\<forall>f\<in>set (allTestFilesOf m). \<exists>r. loadTestFile x f = Inr r)
          \<longrightarrow> (\<exists>v. snd ?r = Inr v)"
    using loadFilesLoop_returns by blast
  with n calls show ?thesis by metis
qed

lemma loadFiles_returns_iff:
  "(\<exists>r. snd (loadFiles x m errors) = Inr r) \<longleftrightarrow>
     (\<forall>f\<in>set (allTestFilesOf m). \<exists>r. loadTestFile x f = Inr r) \<and> stop x = Inr ()"
proof -
  let ?r = "loadFilesLoop x (allTestFilesOf m) \<lparr>loadCalls = [], stopCalls = 0\<rparr> [] errors"
  have same: "(\<exists>r. snd (loadFiles x m errors) = Inr r)
                \<longleftrightarrow> (\<exists>r. snd ?r = Inr r) \<and> stop x = Inr ()"
    by (auto simp: loadFiles_def Let_def split: prod.splits sum.splits)
  show ?thesis
  proof (cases "\<forall>f\<in>set (allTestFilesOf m). \<exists>r. loadTestFile x f = Inr r")
    case True
    then show ?thesis using loadFilesLoop_returns same by blast
  next
    case False
    then have "\<exists>f\<in>set (allTestFilesOf m). \<exists>e. loadTestFile x f = Inl e"
      by (metis sum.exhaust)
    then obtain e where "snd ?r = Inl e"
      using loadFilesLoop_throws by blast
    with False same show ?thesis by simp
  qed
qed

lemma loadAllTests_returns_iff:
  "(\<exists>r. snd (loadAllTests x config options errors) = Inr r) \<longleftrightarrow>
     (\<exists>r. snd (loadFiles x (filesToRunByProject (collectFiles x config options)) errors)
            = Inr r)"
  by (auto simp: loadAllTests_def Let_def split: prod.splits sum.splits)

subsection \<open>One error for each focused item\<close>

lemma createForbidOnlyErrors_map:
  "createForbidOnlyErrors items =
     map (\<lambda>(titlePath, testOrSuite).
            \<lparr>message = ''Error: focused item found in the --forbid-only mode: ''
                         @ dquote @ join '' '' (drop 2 titlePath) @ dquote,
             errorLocation = itemLocation testOrSuite\<rparr>) items"
  by (induction items rule: createForbidOnlyErrors.induct) (simp_all add: Let_def)

section \<open>The run on the small configuration\<close>

lemmas example_defs =
  exampleExternals_def throwingExternals_def exampleConfig_def exampleOptions_def
  filteredOptions_def setupA_def setupB_def mainProject_def exampleLoad_def
  exampleFileSuite_def exampleTest_def exampleTitleMatcher_def exampleFileMatcher_def

lemmas collect_defs =
  collectFiles_def collectAllFiles_def filterFiles_def removeDependencies_def
  shardTopLevel_def addDependencyFiles_def

lemma example_collect:
  "collectFiles exampleExternals exampleConfig exampleOptions =
     \<lparr>filesToRunByProject =
        [(mainProject, [''/r/m.ts'', ''/r/sb.ts'']), (setupA, [''/r/sa.ts'']),
         (setupB, [''/r/sb.ts''])],
      topLevelProjects = [mainProject], dependencyProjects = [setupA, setupB]\<rparr>"
  by (simp add: collect_defs example_defs)

lemma filtered_collect:
  "collectFiles exampleExternals exampleConfig filteredOptions =
     \<lparr>filesToRunByProject =
        [(mainProject, [''/r/m.ts'']), (setupA, [''/r/sa.ts'']), (setupB, [''/r/sb.ts''])],
      topLevelProjects = [mainProject], dependencyProjects = [setupA, setupB]\<rparr>"
  by (simp add: collect_defs example_defs)

lemma throwing_collect:
  "collectFiles throwingExternals exampleConfig exampleOptions =
     \<lparr>filesToRunByProject =
        [(mainProject, [''/r/m.ts'', ''/r/sb.ts'']), (setupA, [''/r/sa.ts'']),
         (setupB, [''/r/sb.ts''])],
      topLevelProjects = [mainProject], dependencyProjects = [setupA, setupB]\<rparr>"
  by (simp add: collect_defs example_defs)

lemma example_allTestFiles:
  "allTestFilesOf
     [(mainProject, [''/r/m.ts'', ''/r/sb.ts'']), (setupA, [''/r/sa.ts'']),
      (setupB, [''/r/sb.ts''])]
     = [''/r/m.ts'', ''/r/sb.ts'', ''/r/sa.ts'']"
  by (simp add: allTestFilesOf_def setAdd_def)

lemma throwing_load:
  "loadAllTests throwingExternals exampleConfig exampleOptions [] =
     (\<lparr>loadCalls = [''/r/m.ts'', ''/r/sb.ts''], stopCalls = 0\<rparr>,
      Inl (Exn ''cannot load''))"
proof -
  have "loadFiles throwingExternals
          [(mainProject, [''/r/m.ts'', ''/r/sb.ts'']), (setupA, [''/r/sa.ts'']),
           (setupB, [''/r/sb.ts''])] []
        = (\<lparr>loadCalls = [''/r/m.ts'', ''/r/sb.ts''], stopCalls = 0\<rparr>,
           Inl (Exn ''cannot load''))"
    unfolding loadFiles_def example_allTestFiles
    by (simp add: throwingExternals_def exampleLoad_def exampleExternals_def)
  then show ?thesis
    unfolding loadAllTests_def throwing_collect by simp
qed

lemma example_loadFiles:
  "loadFiles exampleExternals
     [(mainProject, [''/r/m.ts'', ''/r/sb.ts'']), (setupA, [''/r/sa.ts'']),
      (setupB, [''/r/sb.ts''])] [] =
     (\<lparr>loadCalls = [''/r/m.ts'', ''/r/sb.ts'', ''/r/sa.ts''], stopCalls = 1\<rparr>,
      Inr (exampleFileSuits, []))"
  unfolding loadFiles_def example_allTestFiles
  by (simp add: exampleLoad_def exampleExternals_def exampleFileSuits_def)

lemmas run_defs =
  createRoot_def createDuplicateTitlesErrors_def allTests_def suiteTitlePath_def entriesOf_def
  titleSeparator_def addTopLevelSuites_def prependDependencySuites_def
  topLevelProjectSuite_def dependencyProjectSuite_def createProjectSuite_def
  buildProjectSuite_def addFileSuites_def filesOf_def newSuite_def
  filterTestsRemoveEmptySuites_def titleMatcher_def requireFileOf_def addSuite_def
  prependSuite_def complainAboutOnly_def getOnlyItems_def filterOnly_def itemLocation_def

lemma example_load:
  "loadFiles exampleExternals
     (filesToRunByProject (collectFiles exampleExternals exampleConfig exampleOptions)) [] =
     (\<lparr>loadCalls = [''/r/m.ts'', ''/r/sb.ts'', ''/r/sa.ts''], stopCalls = 1\<rparr>,
      Inr (exampleFileSuits, []))"
  unfolding example_collect by (simp add: example_loadFiles)

lemma example_createRoot:
  "createRoot exampleExternals exampleConfig exampleOptions
     (collectFiles exampleExternals exampleConfig exampleOptions)
     exampleFileSuits []
     = (exampleRoot, exampleErrors)"
  unfolding example_collect
  by (simp add: run_defs exampleRoot_def exampleErrors_def exampleFileSuits_def
      exampleProjectSuite_def exampleExternals_def exampleConfig_def exampleOptions_def
      setupA_def setupB_def mainProject_def exampleFileSuite_def exampleTest_def
      exampleTitleMatcher_def)

lemma example_run:
  "loadAllTests exampleExternals exampleConfig exampleOptions [] =
     (\<lparr>loadCalls = [''/r/m.ts'', ''/r/sb.ts'', ''/r/sa.ts''], stopCalls = 1\<rparr>,
      Inr (exampleRoot, exampleErrors))"
  unfolding loadAllTests_def Let_def example_load
  by (simp add: example_createRoot)

lemmas example_values =
  exampleFileSuits_def exampleProjectSuite_def exampleExternals_def exampleConfig_def
  exampleOptions_def setupA_def setupB_def mainProject_def exampleFileSuite_def
  exampleTest_def exampleTitleMatcher_def

lemma example_loadedFileSuits:
  "loadedFileSuits exampleExternals exampleConfig exampleOptions [] = exampleFileSuits"
  unfolding loadedFileSuits_def example_load by simp

lemma example_dependencySuites:
  "dependencySuites exampleExternals exampleConfig exampleOptions [] =
     [exampleProjectSuite setupA
        [exampleFileSuite ''/r/sa.ts'' ''sa.ts'' [exampleTest ''/r/sa.ts'' ''keep'' 2 True]],
      exampleProjectSuite setupB
        [exampleFileSuite ''/r/sb.ts'' ''sb.ts'' [exampleTest ''/r/sb.ts'' ''b'' 4 False]]]"
  unfolding dependencySuites_def example_loadedFileSuits example_collect
  by (simp add: List.map_filter_simps run_defs example_values)

lemma example_topLevelSuites:
  "topLevelSuites exampleExternals exampleConfig exampleOptions [] =
     [exampleProjectSuite mainProject
        [exampleFileSuite ''/r/m.ts'' ''m.ts''
           [exampleTest ''/r/m.ts'' ''one'' 3 True, exampleTest ''/r/m.ts'' ''two'' 7 False],
         exampleFileSuite ''/r/sb.ts'' ''sb.ts'' [exampleTest ''/r/sb.ts'' ''b'' 4 False]]]"
  unfolding topLevelSuites_def example_loadedFileSuits example_collect
  by (simp add: List.map_filter_simps run_defs example_values)

section \<open>The result of a run\<close>

lemma topLevelRoot_entries:
  "topLevelRoot x config options errors =
     SuiteE \<lparr>title = [], suiteType = Root, location = None, only = False, requireFile = [],
             projectConfig = None, parallelMode = Default\<rparr>
       (topLevelSuites x config options errors)"
  by (simp add: topLevelRoot_def topLevelSuites_def newSuite_def addTopLevelSuites_entries)

lemma run_createRoot:
  assumes "loadAllTests x config options errors = (host, Inr (rootSuite, errors'))"
  shows "createRoot x config options (collectFiles x config options)
           (loadedFileSuits x config options errors) (loadedErrors x config options errors)
         = (rootSuite, errors')"
  using loadAllTests_returned [OF assms]
  by (auto simp: loadedFileSuits_def loadedErrors_def)

lemma run_entries:
  assumes "loadAllTests x config options errors = (host, Inr (rootSuite, errors'))"
  shows "entriesOf rootSuite =
           rev (dependencySuites x config options errors)
           @ entriesOf (filterOnly (topLevelRoot x config options errors))"
  using createRoot_entries [of x config options "collectFiles x config options"
      "loadedFileSuits x config options errors" "loadedErrors x config options errors"]
  by (simp add: run_createRoot [OF assms] dependencySuites_def topLevelRoot_entries
      topLevelSuites_def)

lemma complainAboutOnly_append:
  "complainAboutOnly config r errs =
     errs @ (if forbidOnly config then createForbidOnlyErrors (getOnlyItems r) else [])"
  by (simp add: complainAboutOnly_def Let_def)

lemma run_errors:
  assumes "loadAllTests x config options errors = (host, Inr (rootSuite, errors'))"
  shows "errors' =
           loadedErrors x config options errors
           @ createDuplicateTitlesErrors x config (loadedFileSuits x config options errors)
           @ (if forbidOnly config
              then createForbidOnlyErrors (getOnlyItems (topLevelRoot x config options errors))
              else [])"
proof -
  have "snd (createRoot x config options (collectFiles x config options)
           (loadedFileSuits x config options errors) (loadedErrors x config options errors))
        = loadedErrors x config options errors
           @ createDuplicateTitlesErrors x config (loadedFileSuits x config options errors)
           @ (if forbidOnly config
              then createForbidOnlyErrors (getOnlyItems (topLevelRoot x config options errors))
              else [])"
    by (simp add: createRoot_def Let_def complainAboutOnly_append topLevelRoot_def)
  then show ?thesis by (simp add: run_createRoot [OF assms])
qed

section \<open>The loader host\<close>

text \<open>
  C1 (as amended). The claim says that \<open>stop()\<close> is invoked exactly once on every exit
  path of the loading phase, also when \<open>loadTestFile\<close> throws. The call of \<open>stop\<close>
  follows the loop, with no handler around the loop. In a run of \<open>loadAllTests\<close> that
  has created its loader host (line 85), whatever the file lists are, \<open>stop()\<close> is
  invoked exactly once when every call of \<open>loadTestFile\<close> returns, whether \<open>stop()\<close>
  itself then returns or throws, and it is not invoked when a call of \<open>loadTestFile\<close>
  throws.
\<close>

theorem loading_phase_stop_once_unless_loadTestFile_throws:
  "stopCalls (fst (loadFiles x m errors)) =
     (if \<forall>f\<in>set (allTestFilesOf m). \<exists>r. loadTestFile x f = Inr r then 1 else 0)"
  by (rule stopCalls_loadFiles)

text \<open>C1, witness: on the small configuration every file loads and \<open>stop()\<close> is invoked
  once; with the loader host whose \<open>stop\<close> throws, the loading phase ends in that
  exception and \<open>stop()\<close> has been invoked once.\<close>

theorem loading_phase_stop_once_unless_loadTestFile_throws_witness:
  "stopCalls (fst (loadFiles exampleExternals
      (filesToRunByProject (collectFiles exampleExternals exampleConfig exampleOptions)) []))
     = 1
   \<and> snd (loadFiles stopThrowingExternals
      (filesToRunByProject (collectFiles exampleExternals exampleConfig exampleOptions)) [])
     = Inl (Exn ''cannot stop'')
   \<and> stopCalls (fst (loadFiles stopThrowingExternals
      (filesToRunByProject (collectFiles exampleExternals exampleConfig exampleOptions)) []))
     = 1"
proof -
  let ?m = "filesToRunByProject (collectFiles exampleExternals exampleConfig exampleOptions)"
  have files: "allTestFilesOf ?m = [''/r/m.ts'', ''/r/sb.ts'', ''/r/sa.ts'']"
    unfolding example_collect by (simp add: example_allTestFiles)
  have loads: "\<forall>f\<in>set (allTestFilesOf ?m). \<exists>r. loadTestFile exampleExternals f = Inr r"
    unfolding files by (simp add: exampleExternals_def exampleLoad_def)
  have loads': "\<forall>f\<in>set (allTestFilesOf ?m). \<exists>r. loadTestFile stopThrowingExternals f = Inr r"
    unfolding files by (simp add: stopThrowingExternals_def exampleExternals_def exampleLoad_def)
  have once: "stopCalls (fst (loadFiles exampleExternals ?m [])) = 1"
    using loading_phase_stop_once_unless_loadTestFile_throws [of exampleExternals ?m "[]"] loads
    by simp
  have once': "stopCalls (fst (loadFiles stopThrowingExternals ?m [])) = 1"
    using loading_phase_stop_once_unless_loadTestFile_throws [of stopThrowingExternals ?m "[]"]
      loads'
    by simp
  have thrown: "snd (loadFiles stopThrowingExternals ?m []) = Inl (Exn ''cannot stop'')"
    unfolding loadFiles_def files
    by (simp add: stopThrowingExternals_def exampleExternals_def exampleLoad_def)
  from once thrown once' show ?thesis by simp
qed

text \<open>C1, counterexample: with the loader that throws on \<open>/r/sb.ts\<close> the run ends in
  that exception and \<open>stop()\<close> has not been invoked.\<close>

theorem loadAllTests_stop_counterexample:
  "snd (loadAllTests throwingExternals exampleConfig exampleOptions [])
     = Inl (Exn ''cannot load'')
   \<and> stopCalls (fst (loadAllTests throwingExternals exampleConfig exampleOptions [])) = 0"
  by (simp add: throwing_load)

text \<open>
  C6 (as amended). The claim says that in every run \<open>loadTestFile\<close> is invoked exactly
  once per distinct path of the union of the file lists. A call that throws ends the
  loop, so the paths after it are not loaded: in every run \<open>loadTestFile\<close> is invoked
  at most once per path, and only for paths of the union of the projects' file lists,
  however many lists hold the path; in a run in which no call throws it is invoked
  exactly once for each path of the union.
\<close>

theorem loadTestFile_once_per_path:
  "(f \<notin> \<Union>(set ` snd ` set (filesToRunByProject (collectFiles x config options)))
      \<longrightarrow> count_list (loadCalls (fst (loadAllTests x config options errors))) f = 0)
   \<and> count_list (loadCalls (fst (loadAllTests x config options errors))) f \<le> 1
   \<and> ((\<forall>g\<in>\<Union>(set ` snd ` set (filesToRunByProject (collectFiles x config options))).
          \<exists>r. loadTestFile x g = Inr r)
        \<longrightarrow> f \<in> \<Union>(set ` snd ` set (filesToRunByProject (collectFiles x config options)))
        \<longrightarrow> count_list (loadCalls (fst (loadAllTests x config options errors))) f = 1)"
proof -
  let ?m = "filesToRunByProject (collectFiles x config options)"
  let ?calls = "loadCalls (fst (loadAllTests x config options errors))"
  obtain n where n: "?calls = take n (allTestFilesOf ?m)"
    "(\<forall>g\<in>set (allTestFilesOf ?m). \<exists>r. loadTestFile x g = Inr r)
       \<longrightarrow> n = length (allTestFilesOf ?m)"
    using loadCalls_loadFiles [of ?m x errors] by (auto simp: fst_loadAllTests)
  have d: "distinct ?calls"
    by (simp add: n(1) distinct_allTestFilesOf)
  have sub: "set ?calls \<subseteq> \<Union>(set ` snd ` set ?m)"
    unfolding n(1) using set_take_subset [of n "allTestFilesOf ?m"]
    by (simp add: set_allTestFilesOf)
  have full: "(\<forall>g\<in>\<Union>(set ` snd ` set ?m). \<exists>r. loadTestFile x g = Inr r)
      \<Longrightarrow> set ?calls = \<Union>(set ` snd ` set ?m)"
    using n by (simp add: set_allTestFilesOf)
  show ?thesis
    using sub full by (auto simp: count_list_distinct [OF d])
qed

text \<open>C6, witness: \<open>/r/sb.ts\<close> is in the file lists of \<open>main\<close> and of \<open>setupB\<close>, and is
  loaded once.\<close>

theorem loadTestFile_once_per_path_witness:
  "''/r/sb.ts'' \<in> set (filesOf (filesToRunByProject
       (collectFiles exampleExternals exampleConfig exampleOptions)) mainProject)
   \<and> ''/r/sb.ts'' \<in> set (filesOf (filesToRunByProject
       (collectFiles exampleExternals exampleConfig exampleOptions)) setupB)
   \<and> count_list (loadCalls (fst (loadAllTests exampleExternals exampleConfig exampleOptions [])))
       ''/r/sb.ts'' = 1"
proof -
  have all: "\<forall>g\<in>\<Union>(set ` snd ` set (filesToRunByProject
                 (collectFiles exampleExternals exampleConfig exampleOptions))).
               \<exists>r. loadTestFile exampleExternals g = Inr r"
    unfolding example_collect by (simp add: exampleExternals_def exampleLoad_def)
  have mem: "''/r/sb.ts'' \<in> \<Union>(set ` snd ` set (filesToRunByProject
                 (collectFiles exampleExternals exampleConfig exampleOptions)))"
    unfolding example_collect by simp
  have files: "''/r/sb.ts'' \<in> set (filesOf (filesToRunByProject
       (collectFiles exampleExternals exampleConfig exampleOptions)) mainProject)"
    "''/r/sb.ts'' \<in> set (filesOf (filesToRunByProject
       (collectFiles exampleExternals exampleConfig exampleOptions)) setupB)"
    unfolding example_collect
    by (simp_all add: filesOf_def setupA_def setupB_def mainProject_def)
  from loadTestFile_once_per_path
         [of "''/r/sb.ts''" exampleExternals exampleConfig exampleOptions "[]"] all mem
  have "count_list (loadCalls (fst (loadAllTests exampleExternals exampleConfig exampleOptions [])))
          ''/r/sb.ts'' = 1"
    by blast
  with files show ?thesis by simp
qed

text \<open>C6, counterexample: with the loader that throws on \<open>/r/sb.ts\<close>, the file
  \<open>/r/sa.ts\<close> of the project \<open>setupA\<close> is never passed to \<open>loadTestFile\<close>.\<close>

theorem loadTestFile_once_per_path_counterexample:
  "''/r/sa.ts'' \<in> set (filesOf (filesToRunByProject
       (collectFiles throwingExternals exampleConfig exampleOptions)) setupA)
   \<and> count_list (loadCalls (fst (loadAllTests throwingExternals exampleConfig exampleOptions [])))
       ''/r/sa.ts'' = 0"
  unfolding throwing_collect throwing_load
  by (simp add: filesOf_def setupA_def setupB_def mainProject_def)

section \<open>The files of the dependency projects\<close>

text \<open>
  dependency_files_are_baseline. For every dependency project, the file list used for loading and for composing its
  suite is the list of its file collector, unfiltered and unsharded: it is what
  \<open>filesToRunByProject\<close> holds for the project, each of its files is among the files
  passed to the loader, it is the list given to \<open>createProjectSuite\<close>, and it is the
  entry of the initial collection \<open>allFilesForProject\<close> whenever that has one for the
  project.
\<close>

theorem dependency_files_are_baseline:
  assumes "p \<in> set (dependencyProjects (collectFiles x config options))"
  shows "filesOf (filesToRunByProject (collectFiles x config options)) p
           = collectFilesForProject x p
       \<and> set (collectFilesForProject x p)
           \<subseteq> set (allTestFilesOf (filesToRunByProject (collectFiles x config options)))
       \<and> dependencyProjectSuite x fileSuits options
           (filesToRunByProject (collectFiles x config options)) p
           = createProjectSuite x fileSuits p
               (options\<lparr>testFileFilters := [], testTitleMatcher := None\<rparr>)
               (collectFilesForProject x p)
       \<and> (\<forall>files. map_of (collectAllFiles x
                        (filterProjects x (projects config) (projectFilter options))) p
                      = Some files
               \<longrightarrow> files = filesOf (filesToRunByProject (collectFiles x config options)) p)"
  using filesOf_dependency [OF assms] values_in_allTestFiles [OF filesOf_dependency [OF assms]]
  by (simp add: filesOf_def dependencyProjectSuite_def map_of_collectAllFiles split: if_splits)

text \<open>dependency_files_are_baseline, witness: with the command line \<open>m.ts\<close> the file filter rejects
  \<open>/r/sa.ts\<close>, and the dependency project \<open>setupA\<close> still has it.\<close>

theorem dependency_files_are_baseline_witness:
  "setupA \<in> set (dependencyProjects (collectFiles exampleExternals exampleConfig filteredOptions))
   \<and> \<not> createFileMatcherFromFilters exampleExternals (testFileFilters filteredOptions) ''/r/sa.ts''
   \<and> filesOf (filesToRunByProject (collectFiles exampleExternals exampleConfig filteredOptions))
       setupA = [''/r/sa.ts'']"
proof -
  have dep: "setupA \<in> set (dependencyProjects
      (collectFiles exampleExternals exampleConfig filteredOptions))"
    by (simp add: filtered_collect)
  have "\<not> createFileMatcherFromFilters exampleExternals (testFileFilters filteredOptions)
           ''/r/sa.ts''"
    by (simp add: exampleExternals_def filteredOptions_def exampleOptions_def
        exampleFileMatcher_def)
  with dep dependency_files_are_baseline [OF dep, of exampleFileSuits] show ?thesis
    by (simp add: exampleExternals_def setupA_def setupB_def mainProject_def)
qed

section \<open>The title filter\<close>

text \<open>
  title_filter_retains_iff. For a project suite composed with grep pattern G, grepInvert pattern I and the
  optional title matcher M of the command line, the tests retained by the title filter
  are exactly the tests T of the built project suite, in their order, for which I does
  not match the title path of T joined by spaces and G matches it and M is absent or
  matches it (where the project has no grepInvert pattern, nothing is excluded by it).
\<close>

theorem title_filter_retains_iff:
  "retainedTests (topLevelProjectSuite x fileSuits options m project) =
     filter (\<lambda>T. \<not> (case grepInvert project of
                        Some I \<Rightarrow> createTitleMatcher x I (join '' '' (fst T))
                      | None \<Rightarrow> False)
                \<and> createTitleMatcher x (grep project) (join '' '' (fst T))
                \<and> (case testTitleMatcher options of
                      None \<Rightarrow> True
                    | Some M \<Rightarrow> M (join '' '' (fst T))))
       (allTests (buildProjectSuite x fileSuits project (testFileFilters options)
                    (filesOf m project)))"
proof -
  have "titleMatcher x project options =
        (\<lambda>T. \<not> (case grepInvert project of
                        Some I \<Rightarrow> createTitleMatcher x I (join '' '' (fst T))
                      | None \<Rightarrow> False)
                \<and> createTitleMatcher x (grep project) (join '' '' (fst T))
                \<and> (case testTitleMatcher options of
                      None \<Rightarrow> True
                    | Some M \<Rightarrow> M (join '' '' (fst T))))"
    by (auto simp: titleMatcher_def Let_def fun_eq_iff split: option.splits)
  then show ?thesis
    by (simp add: topLevelProjectSuite_def retained_createProjectSuite)
qed

text \<open>title_filter_retains_iff, witness: the project \<open>main\<close> with the title matcher \<open>two\<close> keeps the one
  test whose joined title path \<open>main m.ts two\<close> the matcher accepts.\<close>

theorem title_filter_retains_iff_witness:
  "retainedTests
     (topLevelProjectSuite exampleExternals exampleFileSuits
        (exampleOptions\<lparr>testTitleMatcher := Some (containsText ''two'')\<rparr>)
        (filesToRunByProject (collectFiles exampleExternals exampleConfig exampleOptions))
        mainProject)
   = [([''main'', ''m.ts'', ''two''],
       \<lparr>testTitle = ''two'', testLocation = \<lparr>filePath = ''/r/m.ts'', line = 7, column = 1\<rparr>,
        testOnly = False\<rparr>)]"
  unfolding title_filter_retains_iff example_collect
  by (simp add: buildProjectSuite_def addFileSuites_def filesOf_def requireFileOf_def addSuite_def
      allTests_def suiteTitlePath_def entriesOf_def example_values)

text \<open>
  dependency_suite_applies_grep. The suite of a dependency project is composed with the file filters and the title
  matcher of the command line taken out and with the project's own patterns applied:
  whatever the options hold, its tests are the tests of the project suite built with
  no file filter that grepInvert does not match and grep matches. So a test whose title
  path grep does not match is not in the suite.
\<close>

theorem dependency_suite_applies_grep:
  "retainedTests (dependencyProjectSuite x fileSuits options m project) =
     filter (\<lambda>T. \<not> (case grepInvert project of
                        Some I \<Rightarrow> createTitleMatcher x I (join '' '' (fst T))
                      | None \<Rightarrow> False)
                \<and> createTitleMatcher x (grep project) (join '' '' (fst T)))
       (allTests (buildProjectSuite x fileSuits project [] (filesOf m project)))"
proof -
  have "titleMatcher x project (options\<lparr>testFileFilters := [], testTitleMatcher := None\<rparr>) =
        (\<lambda>T. \<not> (case grepInvert project of
                        Some I \<Rightarrow> createTitleMatcher x I (join '' '' (fst T))
                      | None \<Rightarrow> False)
                \<and> createTitleMatcher x (grep project) (join '' '' (fst T)))"
    by (auto simp: titleMatcher_def Let_def fun_eq_iff split: option.splits)
  then show ?thesis
    by (simp add: dependencyProjectSuite_def retained_createProjectSuite)
qed

text \<open>dependency_suite_applies_grep, witness: the dependency project \<open>setupA\<close> has the grep pattern \<open>keep\<close>; with
  a command-line title matcher that rejects every title, its suite keeps the test
  \<open>keep\<close> and is without the test \<open>drop\<close>.\<close>

theorem dependency_suite_applies_grep_witness:
  "retainedTests
     (dependencyProjectSuite exampleExternals exampleFileSuits
        (exampleOptions\<lparr>testTitleMatcher := Some (\<lambda>t. False)\<rparr>)
        (filesToRunByProject (collectFiles exampleExternals exampleConfig exampleOptions))
        setupA)
   = [([''setupA'', ''sa.ts'', ''keep''],
       \<lparr>testTitle = ''keep'', testLocation = \<lparr>filePath = ''/r/sa.ts'', line = 2, column = 1\<rparr>,
        testOnly = True\<rparr>)]"
  unfolding dependency_suite_applies_grep example_collect
  by (simp add: buildProjectSuite_def addFileSuites_def filesOf_def requireFileOf_def addSuite_def
      allTests_def suiteTitlePath_def entriesOf_def example_values)

section \<open>The children of the root suite\<close>

text \<open>
  dependency_suites_reversed. In the root suite that \<open>loadAllTests\<close> returns, the first children are the
  non-empty suites of the dependency projects in the reverse of the order in which the
  dependency closure lists the projects, each having been put before all the children
  there were.
\<close>

theorem dependency_suites_reversed:
  assumes "loadAllTests x config options errors = (host, Inr (rootSuite, errors'))"
  shows "take (length (dependencySuites x config options errors)) (entriesOf rootSuite)
           = rev (dependencySuites x config options errors)"
  by (simp add: run_entries [OF assms])

text \<open>dependency_suites_reversed, witness: the closure lists \<open>setupA\<close> before \<open>setupB\<close>, and the root starts
  with the suite of \<open>setupB\<close> followed by that of \<open>setupA\<close>.\<close>

theorem dependency_suites_reversed_witness:
  "dependencyProjects (collectFiles exampleExternals exampleConfig exampleOptions)
     = [setupA, setupB]
   \<and> take 2 (entriesOf exampleRoot) =
       [exampleProjectSuite setupB
          [exampleFileSuite ''/r/sb.ts'' ''sb.ts'' [exampleTest ''/r/sb.ts'' ''b'' 4 False]],
        exampleProjectSuite setupA
          [exampleFileSuite ''/r/sa.ts'' ''sa.ts'' [exampleTest ''/r/sa.ts'' ''keep'' 2 True]]]"
  using dependency_suites_reversed [OF example_run]
  by (simp add: example_dependencySuites example_collect numeral_2_eq_2)

text \<open>
  dependency_suites_before_top_level_suites. In the root suite that \<open>loadAllTests\<close> returns, the suites of the dependency
  projects come before the suites of the top-level projects. A suite is told by the
  loop that composed it: with n the number of non-empty dependency suites, every child
  at an index below n is one of the suites composed for the dependency projects, and
  every child at index n or above is a suite composed for a top-level project, as
  \<open>filterOnly\<close> left it. So the index of each dependency-project suite is less than
  the index of each top-level-project suite. (Lemma \<open>top_level_not_dependency\<close>:
  with a monotone dependency closure and a sharding that keeps a subset of the
  projects, no project is in both loops.)
\<close>

theorem dependency_suites_before_top_level_suites:
  assumes "loadAllTests x config options errors = (host, Inr (rootSuite, errors'))"
  shows "length (dependencySuites x config options errors) \<le> length (entriesOf rootSuite)
       \<and> (\<forall>i. i < length (dependencySuites x config options errors)
             \<longrightarrow> entriesOf rootSuite ! i \<in> set (dependencySuites x config options errors))
       \<and> (\<forall>j. length (dependencySuites x config options errors) \<le> j
               \<and> j < length (entriesOf rootSuite)
             \<longrightarrow> (\<exists>s\<in>set (topLevelSuites x config options errors).
                    entriesOf rootSuite ! j = filterOnly s))"
proof -
  let ?D = "dependencySuites x config options errors"
  let ?T = "entriesOf (filterOnly (topLevelRoot x config options errors))"
  have es: "entriesOf rootSuite = rev ?D @ ?T" by (rule run_entries [OF assms])
  have dep: "entriesOf rootSuite ! i \<in> set ?D" if "i < length ?D" for i
  proof -
    from that have "entriesOf rootSuite ! i = rev ?D ! i" by (simp add: es nth_append)
    moreover from that have "rev ?D ! i \<in> set (rev ?D)" by (intro nth_mem) simp
    ultimately show ?thesis by simp
  qed
  have top: "\<exists>s\<in>set (topLevelSuites x config options errors). entriesOf rootSuite ! j = filterOnly s"
    if "length ?D \<le> j" "j < length (entriesOf rootSuite)" for j
  proof -
    from that have "entriesOf rootSuite ! j = ?T ! (j - length ?D)" "j - length ?D < length ?T"
      by (auto simp: es nth_append)
    then have "entriesOf rootSuite ! j \<in> set ?T" by (metis nth_mem)
    then show ?thesis unfolding topLevelRoot_entries by (rule filterOnly_children)
  qed
  from dep top show ?thesis by (simp add: es)
qed

text \<open>dependency_suites_before_top_level_suites, witness: the children 0 and 1 of the root are dependency suites and the
  child 2 is the suite of the top-level project.\<close>

theorem dependency_suites_before_top_level_suites_witness:
  "entriesOf exampleRoot ! 0
     \<in> set (dependencySuites exampleExternals exampleConfig exampleOptions [])
   \<and> entriesOf exampleRoot ! 1
     \<in> set (dependencySuites exampleExternals exampleConfig exampleOptions [])
   \<and> (\<exists>s\<in>set (topLevelSuites exampleExternals exampleConfig exampleOptions []).
         entriesOf exampleRoot ! 2 = filterOnly s)"
proof -
  have len: "length (dependencySuites exampleExternals exampleConfig exampleOptions []) = 2"
    "length (entriesOf exampleRoot) = 3"
    by (simp_all add: example_dependencySuites exampleRoot_def entriesOf_def)
  from dependency_suites_before_top_level_suites [OF example_run]
  have "\<forall>i<2. entriesOf exampleRoot ! i
            \<in> set (dependencySuites exampleExternals exampleConfig exampleOptions [])"
    and "\<forall>j. 2 \<le> j \<and> j < 3 \<longrightarrow>
           (\<exists>s\<in>set (topLevelSuites exampleExternals exampleConfig exampleOptions []).
              entriesOf exampleRoot ! j = filterOnly s)"
    unfolding len by blast+
  then show ?thesis by simp

qed

text \<open>
  dependency_focus_ignored. Focused items of the dependency suites produce no forbid-only error and take no
  part in the only-filter: the errors of the run are the loader's errors, the
  duplicate-title errors and, when focused tests are forbidden, one error for each
  focused item of the root that holds the top-level suites only; the children of the
  returned root after the dependency suites are those of \<open>filterOnly\<close> of that
  top-level root; and every dependency suite is a child of the returned root as it was
  composed.
\<close>

theorem dependency_focus_ignored:
  assumes "loadAllTests x config options errors = (host, Inr (rootSuite, errors'))"
  shows "errors' =
           loadedErrors x config options errors
           @ createDuplicateTitlesErrors x config (loadedFileSuits x config options errors)
           @ (if forbidOnly config
              then createForbidOnlyErrors (getOnlyItems (topLevelRoot x config options errors))
              else [])
       \<and> entriesOf (topLevelRoot x config options errors) = topLevelSuites x config options errors
       \<and> drop (length (dependencySuites x config options errors)) (entriesOf rootSuite)
           = entriesOf (filterOnly (topLevelRoot x config options errors))
       \<and> set (dependencySuites x config options errors) \<subseteq> set (entriesOf rootSuite)"
proof -
  have top: "entriesOf (topLevelRoot x config options errors)
               = topLevelSuites x config options errors"
    by (simp add: topLevelRoot_entries entriesOf_def)
  have rest: "drop (length (dependencySuites x config options errors)) (entriesOf rootSuite)
               = entriesOf (filterOnly (topLevelRoot x config options errors))"
    "set (dependencySuites x config options errors) \<subseteq> set (entriesOf rootSuite)"
    by (simp_all add: run_entries [OF assms])
  from run_errors [OF assms] top rest show ?thesis by blast
qed

text \<open>dependency_focus_ignored, witness: the suite of \<open>setupA\<close> holds a focused test, and the only
  forbid-only error of the run is the one of the focused test of \<open>main\<close>.\<close>

theorem dependency_focus_ignored_witness:
  "getOnlyItemsIn [] (dependencySuites exampleExternals exampleConfig exampleOptions []) \<noteq> []
   \<and> exampleErrors
       = createForbidOnlyErrors
           (getOnlyItems (topLevelRoot exampleExternals exampleConfig exampleOptions []))
   \<and> drop 2 (entriesOf exampleRoot)
       = entriesOf (filterOnly (topLevelRoot exampleExternals exampleConfig exampleOptions []))
   \<and> set (dependencySuites exampleExternals exampleConfig exampleOptions [])
       \<subseteq> set (entriesOf exampleRoot)"
proof -
  have dup: "createDuplicateTitlesErrors exampleExternals exampleConfig exampleFileSuits = []"
    by (simp add: createDuplicateTitlesErrors_def allTests_def suiteTitlePath_def entriesOf_def
        titleSeparator_def exampleFileSuits_def exampleFileSuite_def exampleTest_def)
  have loaded: "loadedErrors exampleExternals exampleConfig exampleOptions [] = []"
    unfolding loadedErrors_def example_load by simp
  have only: "getOnlyItemsIn []
      (dependencySuites exampleExternals exampleConfig exampleOptions []) \<noteq> []"
    by (simp add: example_dependencySuites exampleProjectSuite_def exampleFileSuite_def
        exampleTest_def)
  have forbid: "forbidOnly exampleConfig" by (simp add: exampleConfig_def)
  have len: "length (dependencySuites exampleExternals exampleConfig exampleOptions []) = 2"
    by (simp add: example_dependencySuites)
  from dependency_focus_ignored [OF example_run] only show ?thesis
    unfolding example_loadedFileSuits dup loaded len by (simp add: forbid)
qed

section \<open>Error messages\<close>

text \<open>
  forbid_only_title_keeps_file_segment. The claim says that each forbid-only error names the title path of the focused
  item with the root and the file segments stripped, as the comment on line 168 does.
  The check runs over the root suite, where a title path starts with the title of the
  root and the name of the project, so \<open>slice(2)\<close> strips those two and the file
  segment stays: for the focused test \<open>one\<close> of the file \<open>m.ts\<close> of the project
  \<open>main\<close> the message names \<open>m.ts one\<close>, not \<open>one\<close>.
\<close>

theorem forbid_only_title_keeps_file_segment:
  "snd (loadAllTests exampleExternals exampleConfig exampleOptions []) =
     Inr (exampleRoot,
          [\<lparr>message = ''Error: focused item found in the --forbid-only mode: ''
                        @ dquote @ ''m.ts one'' @ dquote,
            errorLocation = Some \<lparr>filePath = ''/r/m.ts'', line = 3, column = 1\<rparr>\<rparr>])"
  by (simp add: example_run exampleErrors_def)

text \<open>
  duplicate_title_error_names_latest_declaration. The claim says that the message of a duplicate-title error names the place of the
  first test seen with the title path, as the message itself does (\<open>first declared
  in\<close>). The map \<open>testsByFullTitle\<close> is overwritten on every test, so from the third
  occurrence on the message names the occurrence just before: for the test declared
  on the lines 1, 2 and 3 the error of line 3 names line 2.
\<close>

theorem duplicate_title_error_names_latest_declaration:
  "createDuplicateTitlesErrors exampleExternals exampleConfig [duplicateFileSuite] =
     [\<lparr>message = ''Error: duplicate test title '' @ dquote
                   @ ''suite A'' @ titleSeparator @ ''does X'' @ dquote
                   @ '', first declared in d.ts:1'',
       errorLocation = Some \<lparr>filePath = ''/r/d.ts'', line = 2, column = 1\<rparr>\<rparr>,
      \<lparr>message = ''Error: duplicate test title '' @ dquote
                   @ ''suite A'' @ titleSeparator @ ''does X'' @ dquote
                   @ '', first declared in d.ts:2'',
       errorLocation = Some \<lparr>filePath = ''/r/d.ts'', line = 3, column = 1\<rparr>\<rparr>]"
  by (simp add: createDuplicateTitlesErrors_def duplicateFileSuite_def allTests_def
      suiteTitlePath_def entriesOf_def buildItemLocation_def digit_def titleSeparator_def
      dquote_def exampleFileSuite_def exampleTest_def exampleExternals_def exampleConfig_def)

end
